theory Spec2Isabelle
  imports Complex_Main
begin

section \<open>Movie Search and Reviews: the App component of frontend/index.jsx\<close>

text \<open>
  The component keeps eight state variables (the \<open>useState\<close> hooks) and changes them in
  event handlers that talk to a backend with \<open>fetch\<close>. Each handler is modelled as a
  function from the state of the render it was created in to the state after all of its
  setters have been applied, together with the list of requests it issued, in order.
  What the backend answers to each request is an argument of the handler. A handler is
  run to completion: two handlers in flight at once are outside of this model.

  JavaScript strings are modelled as \<open>string\<close>; its characters are the code units up to
  \<open>0xFF\<close>. The body of a response is modelled at the shape the endpoint gives it: an
  object with the fields \<open>results\<close>, \<open>totalResults\<close> and \<open>error\<close> for the search
  endpoint, an array of reviews for the reviews endpoint. Numbers are integers.
\<close>

subsection \<open>Data\<close>

record movie =
  imdbID :: string
  Title :: string
  Year :: string
  Poster :: string

record review =
  id_review :: int
  reviewText_review :: string

text \<open>The parsed body of a search response; \<open>data_error = None\<close> is a body without
  the field \<open>error\<close>.\<close>

record search_data =
  results :: "movie list"
  data_totalResults :: int
  data_error :: "string option"

text \<open>
  The \<open>Response\<close> object of \<open>fetch\<close>: its status and what \<open>res.json()\<close> gives, either
  the parsed body or (\<open>Inl\<close>) a rejection with the message of the error. \<open>fetch\<close> itself
  either resolves to a response or rejects with an error that has a message.
\<close>

datatype 'b response = Response (status: nat) (json: "string + 'b")

datatype 'b fetch_result = Rejects string | Resolves "'b response"

text \<open>\<open>res.ok\<close>: the status is in the range 200 to 299.\<close>

definition ok :: "'b response \<Rightarrow> bool" where
  "ok res = (200 \<le> status res \<and> status res \<le> 299)"

text \<open>The requests of the component, by endpoint and argument. The value of \<open>selected\<close>
  that goes into a request may be \<open>null\<close>, hence the option.\<close>

datatype request =
    GET_search string int
  | GET_reviews "string option"
  | POST_reviews "string option" string
  | DELETE_reviews int

record ui_state =
  keyword :: string
  page :: int
  movies :: "movie list"
  totalResults :: int
  error :: string
  selected :: "string option"
  reviews :: "review list"
  reviewText :: string

text \<open>The initial values of the hooks.\<close>

definition init_state :: ui_state where
  "init_state = \<lparr> keyword = '''', page = 1, movies = [], totalResults = 0, error = '''',
     selected = None, reviews = [], reviewText = '''' \<rparr>"

subsection \<open>JavaScript primitives the handlers use\<close>

text \<open>White space and line terminators of \<open>String.prototype.trim\<close>, among the code units
  up to \<open>0xFF\<close>: tab, line feed, vertical tab, form feed, carriage return, space and
  no-break space.\<close>

definition is_space :: "char \<Rightarrow> bool" where
  "is_space c = ((of_char c :: nat) \<in> {9, 10, 11, 12, 13, 32, 160})"

definition trim :: "string \<Rightarrow> string" where
  "trim s = rev (dropWhile is_space (rev (dropWhile is_space s)))"

text \<open>Truthiness of \<open>selected\<close>: \<open>null\<close> and the empty string are falsy.\<close>

fun truthy :: "string option \<Rightarrow> bool" where
  "truthy None = False"
| "truthy (Some t) = (t \<noteq> '''')"

text \<open>\<open>data.error || 'Search failed'\<close>\<close>

fun error_or :: "string option \<Rightarrow> string \<Rightarrow> string" where
  "error_or None d = d"
| "error_or (Some e) d = (if e = '''' then d else e)"

subsection \<open>Handlers\<close>

text \<open>\<open>fetchMovies(q, p)\<close>: the three setters before the \<open>try\<close>, then the request; an
  exception anywhere in the \<open>try\<close> block ends in \<open>setError(err.message)\<close>.\<close>

definition fetchMovies ::
  "search_data fetch_result \<Rightarrow> string \<Rightarrow> int \<Rightarrow> ui_state \<Rightarrow> ui_state \<times> request list" where
  "fetchMovies r q p s =
     (let s1 = s\<lparr>error := '''', movies := [], totalResults := 0\<rparr>;
          reqs = [GET_search q p]
      in case r of
           Rejects msg \<Rightarrow> (s1\<lparr>error := msg\<rparr>, reqs)
         | Resolves res \<Rightarrow>
             (case json res of
                Inl msg \<Rightarrow> (s1\<lparr>error := msg\<rparr>, reqs)
              | Inr data \<Rightarrow>
                  if \<not> ok res
                  then (s1\<lparr>error := error_or (data_error data) ''Search failed''\<rparr>, reqs)
                  else (s1\<lparr>movies := results data,
                            totalResults := data_totalResults data,
                            page := p\<rparr>, reqs)))"

text \<open>\<open>handleSearch\<close>, the submit handler of the search form.\<close>

definition handleSearch :: "search_data fetch_result \<Rightarrow> ui_state \<Rightarrow> ui_state \<times> request list" where
  "handleSearch r s =
     (if trim (keyword s) = '''' then (s, [])
      else fetchMovies r (keyword s) 1 (s\<lparr>error := '''', selected := None\<rparr>))"

text \<open>
  \<open>Search(keyword, page)\<close> of the specification is the body of \<open>handleSearch\<close> with the
  page as a parameter; \<open>handleSearch\<close> is its instance at page 1 with the keyword of
  the state (lemma \<open>handleSearch_is_Search\<close>).
\<close>

definition Search ::
  "search_data fetch_result \<Rightarrow> string \<Rightarrow> int \<Rightarrow> ui_state \<Rightarrow> ui_state \<times> request list" where
  "Search r kw p s =
     (if trim kw = '''' then (s, [])
      else fetchMovies r kw p (s\<lparr>error := '''', selected := None\<rparr>))"

text \<open>\<open>ChangePage(p)\<close>: the \<open>onClick\<close> of the pagination button with label \<open>p\<close>.\<close>

definition ChangePage ::
  "search_data fetch_result \<Rightarrow> int \<Rightarrow> ui_state \<Rightarrow> ui_state \<times> request list" where
  "ChangePage r p s = fetchMovies r (keyword s) p s"

text \<open>\<open>Math.ceil(totalResults / 10)\<close>\<close>

definition totalPages :: "int \<Rightarrow> int" where
  "totalPages n = \<lceil>real_of_int n / 10\<rceil>"

text \<open>A pagination button: its label \<open>p\<close> (also its key, and the page its \<open>onClick\<close>
  fetches) and whether it is disabled.\<close>

datatype button = Button (label: int) (disabled: bool)

text \<open>The \<open>for\<close> loop of \<open>renderPagination\<close>, from its counter \<open>p\<close> on.\<close>

function buttons_from :: "int \<Rightarrow> int \<Rightarrow> int \<Rightarrow> button list" where
  "buttons_from p tp pg =
     (if p \<le> tp then Button p (p = pg) # buttons_from (p + 1) tp pg else [])"
  by pat_completeness auto
termination
  by (relation "measure (\<lambda>(p, tp, pg). nat (tp + 1 - p))") auto

declare buttons_from.simps [simp del]

text \<open>\<open>renderPagination\<close>: \<open>None\<close> is the \<open>null\<close> it returns when there is at most one
  page, otherwise the buttons of the container.\<close>

definition renderPagination :: "ui_state \<Rightarrow> button list option" where
  "renderPagination s =
     (let tp = totalPages (totalResults s)
      in if tp \<le> 1 then None else Some (buttons_from 1 tp (page s)))"

text \<open>\<open>selectMovie(title)\<close>\<close>

definition selectMovie :: "string \<Rightarrow> ui_state \<Rightarrow> ui_state" where
  "selectMovie title s = s\<lparr>selected := Some title, reviewText := ''''\<rparr>"

text \<open>\<open>fetchReviews(title)\<close>: the status of the response is not looked at; both a
  rejected \<open>fetch\<close> and a rejected \<open>res.json()\<close> end in the \<open>catch\<close> block.\<close>

definition fetchReviews ::
  "review list fetch_result \<Rightarrow> string option \<Rightarrow> ui_state \<Rightarrow> ui_state \<times> request list" where
  "fetchReviews r title s =
     (let reqs = [GET_reviews title]
      in case r of
           Rejects msg \<Rightarrow> (s\<lparr>error := ''Failed to load reviews.''\<rparr>, reqs)
         | Resolves res \<Rightarrow>
             (case json res of
                Inl msg \<Rightarrow> (s\<lparr>error := ''Failed to load reviews.''\<rparr>, reqs)
              | Inr list \<Rightarrow> (s\<lparr>reviews := list\<rparr>, reqs)))"

text \<open>The effect hook with dependency \<open>selected\<close>: it runs after a render in which
  \<open>selected\<close> differs from its value \<open>prev\<close> in the render before.\<close>

definition selected_effect ::
  "review list fetch_result \<Rightarrow> string option \<Rightarrow> ui_state \<Rightarrow> ui_state \<times> request list" where
  "selected_effect r prev s =
     (if selected s \<noteq> prev \<and> truthy (selected s) then fetchReviews r (selected s) s
      else (s, []))"

text \<open>Clicking "View and Add Reviews" on a card: \<open>selectMovie\<close>, then the effect.\<close>

definition SelectMovie ::
  "review list fetch_result \<Rightarrow> string \<Rightarrow> ui_state \<Rightarrow> ui_state \<times> request list" where
  "SelectMovie r title s = selected_effect r (selected s) (selectMovie title s)"

text \<open>Clicking "Back to Search": \<open>setSelected(null)\<close>, then the effect.\<close>

definition Back :: "review list fetch_result \<Rightarrow> ui_state \<Rightarrow> ui_state \<times> request list" where
  "Back r s = selected_effect r (selected s) (s\<lparr>selected := None\<rparr>)"

text \<open>\<open>submitReview\<close>: \<open>r\<close> answers the POST, \<open>rr\<close> the refresh of the review list.\<close>

definition submitReview ::
  "'b fetch_result \<Rightarrow> review list fetch_result \<Rightarrow> ui_state \<Rightarrow> ui_state \<times> request list" where
  "submitReview r rr s =
     (if trim (reviewText s) = '''' then (s, [])
      else
        let req = POST_reviews (selected s) (reviewText s)
        in case r of
             Rejects msg \<Rightarrow> (s\<lparr>error := msg\<rparr>, [req])
           | Resolves res \<Rightarrow>
               if \<not> ok res then (s\<lparr>error := ''Submit failed''\<rparr>, [req])
               else
                 let (s', reqs) = fetchReviews rr (selected s) (s\<lparr>reviewText := ''''\<rparr>)
                 in (s', req # reqs))"

text \<open>\<open>deleteReview(id)\<close>: \<open>confirmed\<close> is the answer of the \<open>confirm\<close> dialog, \<open>r\<close>
  answers the DELETE, \<open>rr\<close> the refresh of the review list.\<close>

definition deleteReview ::
  "bool \<Rightarrow> 'b fetch_result \<Rightarrow> review list fetch_result \<Rightarrow> int \<Rightarrow> ui_state
     \<Rightarrow> ui_state \<times> request list" where
  "deleteReview confirmed r rr i s =
     (if \<not> confirmed then (s, [])
      else
        let req = DELETE_reviews i
        in case r of
             Rejects msg \<Rightarrow> (s\<lparr>error := msg\<rparr>, [req])
           | Resolves res \<Rightarrow>
               if status res \<noteq> 204 then (s\<lparr>error := ''Delete failed''\<rparr>, [req])
               else
                 let (s', reqs) = fetchReviews rr (selected s) s
                 in (s', req # reqs))"

text \<open>What the user can do while the review view is shown (apart from going back): type
  into the textarea, submit the draft, delete one of the reviews.\<close>

datatype review_action =
    TypeReview string
  | SubmitReview "unit fetch_result" "review list fetch_result"
  | DeleteReview bool "unit fetch_result" "review list fetch_result" int

fun review_step :: "review_action \<Rightarrow> ui_state \<Rightarrow> ui_state" where
  "review_step (TypeReview v) s = s\<lparr>reviewText := v\<rparr>"
| "review_step (SubmitReview r rr) s = fst (submitReview r rr s)"
| "review_step (DeleteReview c r rr i) s = fst (deleteReview c r rr i s)"

fun review_run :: "review_action list \<Rightarrow> ui_state \<Rightarrow> ui_state" where
  "review_run [] s = s"
| "review_run (a # as) s = review_run as (review_step a s)"

subsection \<open>Example data\<close>

text \<open>The search "batman" of the specification's scenarios: one card on the page, fifteen
  hits in total, and one review of the film.\<close>

definition batman :: movie where
  "batman = \<lparr> imdbID = ''tt1'', Title = ''Batman'', Year = ''1989'', Poster = ''N/A'' \<rparr>"

definition great_film :: review where
  "great_film = \<lparr> id_review = 1, reviewText_review = ''Great film'' \<rparr>"

definition batman_page :: search_data where
  "batman_page = \<lparr> results = [batman], data_totalResults = 15, data_error = None \<rparr>"

text \<open>After the search for "batman" has succeeded.\<close>

definition searched :: ui_state where
  "searched = init_state\<lparr>keyword := ''batman'', movies := [batman], totalResults := 15\<rparr>"

text \<open>The same, after the user has replaced the text of the search input by one space
  (\<open>setKeyword\<close> in its \<open>onChange\<close>); the pagination buttons are still there.\<close>

definition searched_then_blanked :: ui_state where
  "searched_then_blanked = searched\<lparr>keyword := '' ''\<rparr>"

text \<open>The review view of the film, with its one review loaded.\<close>

definition reviewing :: ui_state where
  "reviewing = searched\<lparr>selected := Some ''Batman'', reviews := [great_film]\<rparr>"

text \<open>The review view after a submission has failed: the message is shown and the draft
  is still in the textarea.\<close>

definition resubmitting :: ui_state where
  "resubmitting = reviewing\<lparr>error := ''Submit failed'', reviewText := ''Great film''\<rparr>"

lemmas ex_defs = batman_def great_film_def batman_page_def searched_def
  searched_then_blanked_def reviewing_def resubmitting_def init_state_def

subsection \<open>Basic facts\<close>

lemma dropWhile_all: "(\<forall>x \<in> set (dropWhile P xs). P x) \<longleftrightarrow> (\<forall>x \<in> set xs. P x)"
proof
  assume a: "\<forall>x \<in> set (dropWhile P xs). P x"
  have "dropWhile P xs = []"
  proof (rule ccontr)
    assume n: "dropWhile P xs \<noteq> []"
    then have "\<not> P (hd (dropWhile P xs))" by (rule hd_dropWhile)
    moreover from n have "hd (dropWhile P xs) \<in> set (dropWhile P xs)" by simp
    ultimately show False using a by blast
  qed
  then show "\<forall>x \<in> set xs. P x" by (simp add: dropWhile_eq_Nil_conv)
next
  assume "\<forall>x \<in> set xs. P x"
  then show "\<forall>x \<in> set (dropWhile P xs). P x"
    using set_dropWhileD by fastforce
qed

text \<open>A string trims to the empty string exactly when it consists of white space.\<close>

lemma trim_empty_iff: "trim s = '''' \<longleftrightarrow> (\<forall>c \<in> set s. is_space c)"
  by (simp add: trim_def dropWhile_all)

lemma handleSearch_is_Search: "handleSearch r s = Search r (keyword s) 1 s"
  by (simp add: handleSearch_def Search_def)

text \<open>Each fetching function issues exactly its one request, whatever the answer.\<close>

lemma snd_fetchReviews: "snd (fetchReviews rr t s) = [GET_reviews t]"
  by (simp add: fetchReviews_def Let_def split: fetch_result.split sum.split)

lemma snd_fetchMovies: "snd (fetchMovies r q p s) = [GET_search q p]"
  by (simp add: fetchMovies_def Let_def split: fetch_result.split sum.split)

lemma fetchMovies_selected:
  "fetchMovies r q p (s\<lparr>selected := x\<rparr>) =
     ((fst (fetchMovies r q p s))\<lparr>selected := x\<rparr>, snd (fetchMovies r q p s))"
  by (simp add: fetchMovies_def Let_def split: fetch_result.split sum.split)

text \<open>\<open>fetchReviews\<close> stores the parsed body under every status, and reports a failure
  only when \<open>fetch\<close> or \<open>res.json()\<close> rejects.\<close>

lemma fetchReviews_ignores_status:
  "fetchReviews (Resolves (Response st (Inr list))) t s = (s\<lparr>reviews := list\<rparr>, [GET_reviews t])"
  by (simp add: fetchReviews_def)

lemma fetchReviews_caught:
  "fetchReviews (Rejects m) t s = (s\<lparr>error := ''Failed to load reviews.''\<rparr>, [GET_reviews t]) \<and>
   fetchReviews (Resolves (Response st (Inl m))) t s =
     (s\<lparr>error := ''Failed to load reviews.''\<rparr>, [GET_reviews t])"
  by (simp add: fetchReviews_def)

lemma fetchReviews_frame:
  "keyword (fst (fetchReviews rr t s)) = keyword s \<and>
   page (fst (fetchReviews rr t s)) = page s \<and>
   movies (fst (fetchReviews rr t s)) = movies s \<and>
   totalResults (fst (fetchReviews rr t s)) = totalResults s \<and>
   selected (fst (fetchReviews rr t s)) = selected s \<and>
   reviewText (fst (fetchReviews rr t s)) = reviewText s"
  by (simp add: fetchReviews_def Let_def split: fetch_result.split sum.split)

subsection \<open>Changing the page and searching\<close>

text \<open>
  With the space as keyword, the button of page 2 sends a search request, and \<open>Search\<close>
  with the same keyword and page sends none.
\<close>

theorem ChangePage_blank_keyword_counterexample:
  "snd (ChangePage (Resolves (Response 200 (Inr batman_page))) 2 searched_then_blanked)
     = [GET_search '' '' 2] \<and>
   snd (Search (Resolves (Response 200 (Inr batman_page)))
          (keyword searched_then_blanked) 2 searched_then_blanked) = []"
  by (simp add: ex_defs ChangePage_def Search_def fetchMovies_def trim_def is_space_def ok_def)

text \<open>
  C1, as amended. When the keyword held by the state is not empty after trimming,
  \<open>ChangePage(p)\<close> issues the same request as \<open>Search(keyword, p)\<close> and leaves the same
  state, except that \<open>Search\<close> also sets \<open>selected\<close> to \<open>null\<close>; so the two are equal
  whenever \<open>selected\<close> is \<open>null\<close> already. (For a keyword that is blank after trimming
  \<open>ChangePage\<close> still sends its request, and \<open>Search\<close> does nothing.)
\<close>

theorem ChangePage_Search_nonblank:
  assumes "trim (keyword s) \<noteq> ''''"
  shows "Search r (keyword s) p s =
           ((fst (ChangePage r p s))\<lparr>selected := None\<rparr>, snd (ChangePage r p s)) \<and>
         (selected s = None \<longrightarrow> ChangePage r p s = Search r (keyword s) p s)"
proof -
  have a: "Search r (keyword s) p s = fetchMovies r (keyword s) p (s\<lparr>selected := None\<rparr>)"
    using assms by (simp add: Search_def fetchMovies_def)
  have b: "Search r (keyword s) p s =
      ((fst (ChangePage r p s))\<lparr>selected := None\<rparr>, snd (ChangePage r p s))"
    unfolding a ChangePage_def by (rule fetchMovies_selected)
  have c: "ChangePage r p s = Search r (keyword s) p s" if "selected s = None"
  proof -
    from that have "s\<lparr>selected := None\<rparr> = s" by simp
    then have "fetchMovies r (keyword s) p (s\<lparr>selected := None\<rparr>) = ChangePage r p s"
      unfolding ChangePage_def by (rule arg_cong)
    with a show ?thesis by (rule trans [THEN sym])
  qed
  from b c show ?thesis by blast
qed

text \<open>The button of page 2 after the search for "batman".\<close>

theorem ChangePage_Search_nonblank_witness:
  "trim (keyword searched) \<noteq> '''' \<and> selected searched = None \<and>
   ChangePage (Resolves (Response 200 (Inr batman_page))) 2 searched =
   Search (Resolves (Response 200 (Inr batman_page))) (keyword searched) 2 searched"
proof -
  have h: "trim (keyword searched) \<noteq> ''''"
    by (simp add: ex_defs trim_def is_space_def)
  have n: "selected searched = None"
    by (simp add: ex_defs)
  from ChangePage_Search_nonblank [OF h] n
  have "ChangePage (Resolves (Response 200 (Inr batman_page))) 2 searched =
        Search (Resolves (Response 200 (Inr batman_page))) (keyword searched) 2 searched"
    by blast
  with h n show ?thesis by blast
qed

subsection \<open>Loading the reviews\<close>

text \<open>
  C2. A failing review fetch should set the message and keep the list. The code does so
  when \<open>fetch\<close> or \<open>res.json()\<close> rejects (lemma \<open>fetchReviews_caught\<close>), but it never
  looks at the status: a response with status 500 and a JSON body replaces the list by
  that body and sets no message. Here the list held one review and is empty afterwards.
\<close>

theorem fetchReviews_status_500_replaces_reviews:
  "reviews reviewing = [great_film] \<and> error reviewing = '''' \<and>
   fetchReviews (Resolves (Response 500 (Inr []))) (Some ''Batman'') reviewing
     = (reviewing\<lparr>reviews := []\<rparr>, [GET_reviews (Some ''Batman'')]) \<and>
   error (fst (fetchReviews (Resolves (Response 500 (Inr []))) (Some ''Batman'') reviewing)) = ''''"
  by (simp add: ex_defs fetchReviews_def)

subsection \<open>Clearing the error message\<close>

text \<open>
  A submission that succeeds (status 201, and the refresh of the list succeeds too)
  clears the draft, and the message of the earlier failure is still there.
\<close>

theorem submitReview_stale_error_counterexample:
  "error resubmitting = ''Submit failed'' \<and>
   reviewText (fst (submitReview (Resolves (Response 201 (Inr ())))
      (Resolves (Response 200 (Inr [great_film]))) resubmitting)) = '''' \<and>
   error (fst (submitReview (Resolves (Response 201 (Inr ())))
      (Resolves (Response 200 (Inr [great_film]))) resubmitting)) = ''Submit failed''"
  by (simp add: ex_defs submitReview_def fetchReviews_def trim_def is_space_def ok_def)

text \<open>
  C3, as amended. A search with a keyword that is not blank clears the error message:
  what the search form's handler does and leaves does not depend on the message held
  before, and after a successful search the message is empty. Submitting a review does
  not clear it: after a successful submission whose refresh of the list succeeds, the
  message is the one held before.
\<close>

theorem Search_clears_error_submitReview_keeps_it:
  assumes "trim (keyword s) \<noteq> ''''" and "trim (reviewText s2) \<noteq> ''''"
    and "200 \<le> st" and "st \<le> 299"
  shows "handleSearch r (s\<lparr>error := e\<rparr>) = handleSearch r s \<and>
         error (fst (handleSearch (Resolves (Response st (Inr d))) s)) = '''' \<and>
         error (fst (submitReview (Resolves (Response st b))
                  (Resolves (Response st2 (Inr list))) s2)) = error s2"
  using assms
  by (simp add: handleSearch_def fetchMovies_def submitReview_def fetchReviews_def ok_def)

text \<open>A search while "Search failed" is shown, and the submission of above.\<close>

theorem Search_clears_error_submitReview_keeps_it_witness:
  "trim (keyword (searched\<lparr>error := ''Search failed''\<rparr>)) \<noteq> '''' \<and>
   trim (reviewText resubmitting) \<noteq> '''' \<and> (200::nat) \<le> 201 \<and> (201::nat) \<le> 299 \<and>
   error (fst (handleSearch (Resolves (Response 201 (Inr batman_page)))
     (searched\<lparr>error := ''Search failed''\<rparr>))) = '''' \<and>
   error (fst (submitReview (Resolves (Response 201 (Inr ())))
      (Resolves (Response 200 (Inr [great_film]))) resubmitting)) = error resubmitting"
proof -
  have h1: "trim (keyword (searched\<lparr>error := ''Search failed''\<rparr>)) \<noteq> ''''"
    by (simp add: ex_defs trim_def is_space_def)
  have h2: "trim (reviewText resubmitting) \<noteq> ''''"
    by (simp add: ex_defs trim_def is_space_def)
  have h3: "(200::nat) \<le> 201" and h4: "(201::nat) \<le> 299"
    by simp_all
  from Search_clears_error_submitReview_keeps_it [OF h1 h2 h3 h4,
      of "Rejects []" "[]" batman_page "Inr ()" 200 "[great_film]"]
  show ?thesis using h1 h2 by simp
qed

subsection \<open>Deleting a review\<close>

text \<open>
  C4. A confirmed \<open>deleteReview(id)\<close> whose request is answered with status \<open>st\<close>
  succeeds exactly when \<open>st\<close> is 204: then it issues the DELETE and re-invokes
  \<open>fetchReviews(selected)\<close>, whose outcome is the new state. Under any other status,
  200 and the other 2xx codes included, it issues the DELETE only, sets the error message
  to "Delete failed" and changes nothing else.
\<close>

theorem deleteReview_succeeds_iff_204:
  "deleteReview True (Resolves (Response st b)) rr i s =
     (if st = 204
      then (fst (fetchReviews rr (selected s) s), [DELETE_reviews i, GET_reviews (selected s)])
      else (s\<lparr>error := ''Delete failed''\<rparr>, [DELETE_reviews i]))"
proof (cases "st = 204")
  case True
  then show ?thesis
    by (simp add: deleteReview_def case_prod_beta snd_fetchReviews)
next
  case False
  then show ?thesis by (simp add: deleteReview_def)
qed

text \<open>Deleting review 1 of the film, answered with 200 and with 204.\<close>

theorem deleteReview_succeeds_iff_204_witness:
  "deleteReview True (Resolves (Response 200 (Inr ()))) (Resolves (Response 200 (Inr []))) 1 reviewing
     = (reviewing\<lparr>error := ''Delete failed''\<rparr>, [DELETE_reviews 1]) \<and>
   deleteReview True (Resolves (Response 204 (Inl ''Unexpected end of JSON input'')))
       (Resolves (Response 200 (Inr []))) 1 reviewing
     = (reviewing\<lparr>reviews := []\<rparr>, [DELETE_reviews 1, GET_reviews (Some ''Batman'')])"
proof -
  have a: "selected reviewing = Some ''Batman''" by (simp add: ex_defs)
  show ?thesis
    using deleteReview_succeeds_iff_204
        [of 200 "Inr ()" "Resolves (Response 200 (Inr []))" 1 reviewing]
      deleteReview_succeeds_iff_204
        [of 204 "Inl ''Unexpected end of JSON input''" "Resolves (Response 200 (Inr []))" 1 reviewing]
    by (simp add: a fetchReviews_ignores_status)
qed

text \<open>
  C7. When the user declines the confirmation, \<open>deleteReview(id)\<close> issues no request and
  leaves every component of the state, the list of reviews included, as it was.
\<close>

theorem deleteReview_declined:
  "deleteReview False r rr i s = (s, [])"
  by (simp add: deleteReview_def)

theorem deleteReview_declined_witness:
  "deleteReview False (Resolves (Response 204 (Inr ()))) (Resolves (Response 200 (Inr []))) 1
     reviewing = (reviewing, [])"
  by (rule deleteReview_declined)

subsection \<open>Searching\<close>

text \<open>
  C8. With a keyword that is empty after trimming (lemma \<open>trim_empty_iff\<close>: one that
  consists of white space only), the search form's handler is a no-op: no request, and
  the state is the one before. The same holds of \<open>Search\<close> at every page.
\<close>

theorem handleSearch_blank_noop:
  assumes "trim (keyword s) = ''''"
  shows "handleSearch r s = (s, []) \<and> Search r (keyword s) p s = (s, [])"
  using assms by (simp add: handleSearch_def Search_def)

text \<open>A keyword of a space, a tab and a no-break space.\<close>

theorem handleSearch_blank_noop_witness:
  "trim (keyword (searched\<lparr>keyword := [CHR '' '', CHR 0x09, CHR 0xA0]\<rparr>)) = '''' \<and>
   handleSearch (Resolves (Response 200 (Inr batman_page)))
      (searched\<lparr>keyword := [CHR '' '', CHR 0x09, CHR 0xA0]\<rparr>)
     = (searched\<lparr>keyword := [CHR '' '', CHR 0x09, CHR 0xA0]\<rparr>, [])"
proof -
  have h: "trim (keyword (searched\<lparr>keyword := [CHR '' '', CHR 0x09, CHR 0xA0]\<rparr>)) = ''''"
    by (simp add: trim_def is_space_def)
  from handleSearch_blank_noop [OF h] h show ?thesis by blast
qed

lemma totalPages_div: "totalPages n = (n + 9) div 10"
  unfolding totalPages_def by linarith

lemma totalPages_le_1_iff: "totalPages n \<le> 1 \<longleftrightarrow> n \<le> 10"
  unfolding totalPages_div by presburger

text \<open>The loop of \<open>renderPagination\<close> makes one button for each page from \<open>p\<close> to the
  last, in ascending order.\<close>

lemma buttons_from_upto: "buttons_from p tp pg = map (\<lambda>q. Button q (q = pg)) [p..tp]"
proof (induction p tp pg rule: buttons_from.induct)
  case (1 p tp pg)
  show ?case
  proof (cases "p \<le> tp")
    case True
    with 1 show ?thesis
      by (subst buttons_from.simps, subst upto.simps) simp
  next
    case False
    then show ?thesis
      by (subst buttons_from.simps) simp
  qed
qed

lemma fetchMovies_success:
  assumes "200 \<le> st" and "st \<le> 299"
  shows "fetchMovies (Resolves (Response st (Inr d))) q p s =
     (s\<lparr>error := '''', movies := results d, totalResults := data_totalResults d, page := p\<rparr>,
      [GET_search q p])"
  using assms by (simp add: fetchMovies_def ok_def)

text \<open>
  C5. After a successful search response (status 2xx, body parsed) for page \<open>p\<close> with
  total count \<open>n\<close>: the current page is \<open>p\<close>, the movies are the \<open>results\<close> of the
  body and the total is \<open>n\<close>. When \<open>n\<close> is at most 10 no pagination is rendered;
  otherwise the pagination has \<open>ceil(n / 10)\<close> buttons, labelled 1 to \<open>ceil(n / 10)\<close> in
  ascending order, of which the one labelled \<open>p\<close> is disabled.
\<close>

theorem fetchMovies_success_pagination:
  assumes "200 \<le> st" and "st \<le> 299"
  shows "let s' = fst (fetchMovies (Resolves (Response st (Inr d))) q p s);
             n = data_totalResults d
         in page s' = p \<and> movies s' = results d \<and> totalResults s' = n \<and>
            (n \<le> 10 \<longrightarrow> renderPagination s' = None) \<and>
            (10 < n \<longrightarrow>
               (\<exists>bs. renderPagination s' = Some bs \<and>
                  int (length bs) = \<lceil>real_of_int n / 10\<rceil> \<and>
                  map label bs = [1..\<lceil>real_of_int n / 10\<rceil>] \<and>
                  map disabled bs = map (\<lambda>q. q = p) [1..\<lceil>real_of_int n / 10\<rceil>]))"
proof -
  define n where "n = data_totalResults d"
  define s' where "s' = fst (fetchMovies (Resolves (Response st (Inr d))) q p s)"
  have s': "s' = s\<lparr>error := '''', movies := results d, totalResults := n, page := p\<rparr>"
    unfolding s'_def n_def using fetchMovies_success [OF assms] by simp
  have f: "page s' = p" "movies s' = results d" "totalResults s' = n"
    by (simp_all add: s')
  have small: "renderPagination s' = None" if "n \<le> 10"
    using that by (simp add: renderPagination_def f totalPages_le_1_iff)
  have large: "\<exists>bs. renderPagination s' = Some bs \<and>
                  int (length bs) = \<lceil>real_of_int n / 10\<rceil> \<and>
                  map label bs = [1..\<lceil>real_of_int n / 10\<rceil>] \<and>
                  map disabled bs = map (\<lambda>q. q = p) [1..\<lceil>real_of_int n / 10\<rceil>]"
    if "10 < n"
  proof -
    from that have "\<not> totalPages n \<le> 1" by (simp add: totalPages_le_1_iff)
    then have r: "renderPagination s' = Some (buttons_from 1 (totalPages n) p)"
      by (simp add: renderPagination_def f)
    have pos: "0 \<le> totalPages n" using that unfolding totalPages_div by presburger
    have "int (length (buttons_from 1 (totalPages n) p)) = totalPages n"
      using pos by (simp add: buttons_from_upto)
    moreover have "map label (buttons_from 1 (totalPages n) p) = [1..totalPages n]"
      by (simp add: buttons_from_upto comp_def)
    moreover have "map disabled (buttons_from 1 (totalPages n) p)
        = map (\<lambda>q. q = p) [1..totalPages n]"
      by (simp add: buttons_from_upto comp_def)
    ultimately show ?thesis using r unfolding totalPages_def by blast
  qed
  from f small large show ?thesis
    unfolding Let_def s'_def [symmetric] n_def [symmetric] by blast
qed

text \<open>The scenario of the specification: "batman", page 1, fifteen hits give two buttons
  with the first disabled; ten hits give no pagination.\<close>

theorem fetchMovies_success_pagination_witness:
  "(200::nat) \<le> 200 \<and> (200::nat) \<le> 299 \<and>
   page (fst (fetchMovies (Resolves (Response 200 (Inr batman_page))) ''batman'' 1 init_state)) = 1 \<and>
   movies (fst (fetchMovies (Resolves (Response 200 (Inr batman_page))) ''batman'' 1 init_state))
     = [batman] \<and>
   renderPagination (fst (fetchMovies (Resolves (Response 200 (Inr batman_page))) ''batman'' 1 init_state))
     = Some [Button 1 True, Button 2 False] \<and>
   renderPagination (fst (fetchMovies
       (Resolves (Response 200 (Inr (batman_page\<lparr>data_totalResults := 10\<rparr>)))) ''batman'' 1 init_state))
     = None"
proof -
  have h1: "(200::nat) \<le> 200" and h2: "(200::nat) \<le> 299" by simp_all
  have b: "buttons_from 1 2 1 = [Button 1 True, Button 2 False]"
    by (simp add: buttons_from.simps)
  have r: "renderPagination (fst (fetchMovies (Resolves (Response 200 (Inr batman_page))) ''batman'' 1 init_state))
     = Some [Button 1 True, Button 2 False]"
    by (simp add: fetchMovies_def ok_def batman_page_def renderPagination_def totalPages_def b)
  from fetchMovies_success_pagination [OF h1 h2, of batman_page "''batman''" 1 init_state]
  have x: "page (fst (fetchMovies (Resolves (Response 200 (Inr batman_page))) ''batman'' 1 init_state)) = 1 \<and>
   movies (fst (fetchMovies (Resolves (Response 200 (Inr batman_page))) ''batman'' 1 init_state))
     = [batman]"
    by (simp add: Let_def batman_page_def)
  from fetchMovies_success_pagination
    [OF h1 h2, of "batman_page\<lparr>data_totalResults := 10\<rparr>" "''batman''" 1 init_state]
  have y: "renderPagination (fst (fetchMovies
       (Resolves (Response 200 (Inr (batman_page\<lparr>data_totalResults := 10\<rparr>)))) ''batman'' 1 init_state))
     = None"
    by (simp add: Let_def)
  from h1 h2 x r y show ?thesis by blast
qed

text \<open>
  C10. When a search fails (\<open>fetch\<close> rejects, the body does not parse, or the status is
  not 2xx), the current page is the one held before the call, and the movies and the
  total are the empty list and 0 that the operation sets before its request.
\<close>

theorem fetchMovies_failure_frame:
  assumes "r = Rejects m \<or> r = Resolves (Response st (Inl m)) \<or>
           (r = Resolves (Response st (Inr d)) \<and> \<not> (200 \<le> st \<and> st \<le> 299))"
  shows "page (fst (fetchMovies r q p s)) = page s \<and>
         movies (fst (fetchMovies r q p s)) = [] \<and>
         totalResults (fst (fetchMovies r q p s)) = 0"
  using assms by (auto simp add: fetchMovies_def ok_def)

text \<open>Asking for page 2 of "batman" from page 1, answered with status 500.\<close>

theorem fetchMovies_failure_frame_witness:
  "page (fst (fetchMovies (Resolves (Response 500
       (Inr \<lparr> results = [], data_totalResults = 0, data_error = Some ''OMDb down'' \<rparr>)))
       ''batman'' 2 searched)) = 1 \<and>
   movies (fst (fetchMovies (Resolves (Response 500
       (Inr \<lparr> results = [], data_totalResults = 0, data_error = Some ''OMDb down'' \<rparr>)))
       ''batman'' 2 searched)) = [] \<and>
   totalResults (fst (fetchMovies (Resolves (Response 500
       (Inr \<lparr> results = [], data_totalResults = 0, data_error = Some ''OMDb down'' \<rparr>)))
       ''batman'' 2 searched)) = 0"
proof -
  have h: "(Resolves (Response 500
       (Inr \<lparr> results = [], data_totalResults = 0, data_error = Some ''OMDb down'' \<rparr>))
         :: search_data fetch_result) = Rejects [] \<or>
      Resolves (Response 500
       (Inr \<lparr> results = [], data_totalResults = 0, data_error = Some ''OMDb down'' \<rparr>))
         = Resolves (Response 500 (Inl [])) \<or>
      (Resolves (Response 500
       (Inr \<lparr> results = [], data_totalResults = 0, data_error = Some ''OMDb down'' \<rparr>))
         = Resolves (Response 500
       (Inr \<lparr> results = [], data_totalResults = 0, data_error = Some ''OMDb down'' \<rparr>))
       \<and> \<not> ((200::nat) \<le> 500 \<and> (500::nat) \<le> 299))"
    by simp
  have pg: "page searched = 1" by (simp add: ex_defs)
  from fetchMovies_failure_frame [OF h, of "''batman''" 2 searched] pg show ?thesis by simp
qed

subsection \<open>Submitting a review\<close>

text \<open>
  C6. With a draft that is not empty after trimming, \<open>submitReview\<close> POSTs the selected
  title and the draft. Under a 2xx status it clears the draft and re-invokes
  \<open>fetchReviews(selected)\<close>, whose outcome is the new state, with the draft empty. Under
  any other status it sets the error message to "Submit failed", and when the request
  itself fails to the message of that failure; in both cases it issues nothing more and
  the draft, like everything else, is unchanged.
\<close>

theorem submitReview_outcomes:
  assumes "trim (reviewText s) \<noteq> ''''"
  shows "submitReview (Resolves (Response st b) :: 'b fetch_result) rr s =
           (if 200 \<le> st \<and> st \<le> 299
            then (fst (fetchReviews rr (selected s) (s\<lparr>reviewText := ''''\<rparr>)),
                  [POST_reviews (selected s) (reviewText s), GET_reviews (selected s)])
            else (s\<lparr>error := ''Submit failed''\<rparr>, [POST_reviews (selected s) (reviewText s)])) \<and>
         submitReview (Rejects msg :: 'b fetch_result) rr s =
           (s\<lparr>error := msg\<rparr>, [POST_reviews (selected s) (reviewText s)]) \<and>
         reviewText (fst (fetchReviews rr (selected s) (s\<lparr>reviewText := ''''\<rparr>))) = ''''"
  using assms
  by (simp add: submitReview_def ok_def case_prod_beta snd_fetchReviews fetchReviews_frame)

text \<open>Submitting "Great film", answered with 201, with 500, and not at all.\<close>

theorem submitReview_outcomes_witness:
  "trim (reviewText resubmitting) \<noteq> '''' \<and>
   submitReview (Resolves (Response 201 (Inr ()))) (Resolves (Response 200 (Inr [great_film])))
       resubmitting
     = (resubmitting\<lparr>reviewText := '''', reviews := [great_film]\<rparr>,
        [POST_reviews (Some ''Batman'') ''Great film'', GET_reviews (Some ''Batman'')]) \<and>
   submitReview (Resolves (Response 500 (Inr ()))) (Resolves (Response 200 (Inr [great_film])))
       resubmitting
     = (resubmitting\<lparr>error := ''Submit failed''\<rparr>,
        [POST_reviews (Some ''Batman'') ''Great film'']) \<and>
   submitReview (Rejects ''Failed to fetch'' :: unit fetch_result)
       (Resolves (Response 200 (Inr [great_film]))) resubmitting
     = (resubmitting\<lparr>error := ''Failed to fetch''\<rparr>,
        [POST_reviews (Some ''Batman'') ''Great film''])"
proof -
  have h: "trim (reviewText resubmitting) \<noteq> ''''"
    by (simp add: ex_defs trim_def is_space_def)
  have a: "selected resubmitting = Some ''Batman''" "reviewText resubmitting = ''Great film''"
    by (simp_all add: ex_defs)
  show ?thesis
    using h submitReview_outcomes [OF h, of 201 "Inr ()"
        "Resolves (Response 200 (Inr [great_film]))" "''Failed to fetch''"]
      submitReview_outcomes [OF h, of 500 "Inr ()"
        "Resolves (Response 200 (Inr [great_film]))" "''Failed to fetch''"]
    by (simp add: a fetchReviews_ignores_status)
qed

subsection \<open>Going back to the search view\<close>

lemma review_step_frame:
  "keyword (review_step a s) = keyword s \<and>
   page (review_step a s) = page s \<and>
   movies (review_step a s) = movies s \<and>
   totalResults (review_step a s) = totalResults s \<and>
   selected (review_step a s) = selected s"
proof (cases a)
  case (TypeReview v)
  then show ?thesis by simp
next
  case (SubmitReview r rr)
  then show ?thesis
    by (simp add: submitReview_def Let_def case_prod_beta fetchReviews_frame
        split: fetch_result.split)
next
  case (DeleteReview c r rr i)
  then show ?thesis
    by (simp add: deleteReview_def Let_def case_prod_beta fetchReviews_frame
        split: fetch_result.split)
qed

lemma review_run_frame:
  "keyword (review_run as s) = keyword s \<and>
   page (review_run as s) = page s \<and>
   movies (review_run as s) = movies s \<and>
   totalResults (review_run as s) = totalResults s \<and>
   selected (review_run as s) = selected s"
  by (induction as arbitrary: s) (simp_all add: review_step_frame)

lemma SelectMovie_frame:
  "keyword (fst (SelectMovie r t s)) = keyword s \<and>
   page (fst (SelectMovie r t s)) = page s \<and>
   movies (fst (SelectMovie r t s)) = movies s \<and>
   totalResults (fst (SelectMovie r t s)) = totalResults s \<and>
   selected (fst (SelectMovie r t s)) = Some t"
  by (simp add: SelectMovie_def selected_effect_def selectMovie_def fetchReviews_frame)

lemma Back_eq: "Back rb s = (s\<lparr>selected := None\<rparr>, [])"
  by (simp add: Back_def selected_effect_def)

text \<open>
  C9. In every state \<open>Back()\<close> sets \<open>selected\<close> to \<open>null\<close>, changes nothing else and
  issues no request. And whatever the user did in the review view of a title after
  selecting it in a state \<open>s\<close> (typing, submitting, deleting, with any answers from the
  backend), after \<open>Back()\<close> the keyword, the movies, the total and the current page are
  those of \<open>s\<close>.
\<close>

theorem Back_restores_search_view:
  "Back rb s1 = (s1\<lparr>selected := None\<rparr>, []) \<and>
   (let s2 = fst (Back rb (review_run acts (fst (SelectMovie r t s))))
    in selected s2 = None \<and> keyword s2 = keyword s \<and> movies s2 = movies s \<and>
       totalResults s2 = totalResults s \<and> page s2 = page s)"
  by (simp add: Back_eq review_run_frame SelectMovie_frame)

text \<open>Selecting the film after the search, typing a review, a failed and a successful
  submission, deleting the review, and back: the search view is as before, under the
  message of the failed submission.\<close>

theorem Back_restores_search_view_witness:
  "Back (Rejects ''x'') reviewing = (reviewing\<lparr>selected := None\<rparr>, []) \<and>
   fst (Back (Rejects ''x'')
     (review_run [TypeReview ''Great film'',
                  SubmitReview (Rejects ''Failed to fetch'') (Rejects ''x''),
                  SubmitReview (Resolves (Response 201 (Inr ())))
                    (Resolves (Response 200 (Inr [great_film]))),
                  DeleteReview True (Resolves (Response 204 (Inr ())))
                    (Resolves (Response 200 (Inr []))) 1]
        (fst (SelectMovie (Resolves (Response 200 (Inr []))) ''Batman'' searched))))
   = searched\<lparr>error := ''Failed to fetch''\<rparr>"
proof -
  have e: "fst (Back (Rejects ''x'')
     (review_run [TypeReview ''Great film'',
                  SubmitReview (Rejects ''Failed to fetch'') (Rejects ''x''),
                  SubmitReview (Resolves (Response 201 (Inr ())))
                    (Resolves (Response 200 (Inr [great_film]))),
                  DeleteReview True (Resolves (Response 204 (Inr ())))
                    (Resolves (Response 200 (Inr []))) 1]
        (fst (SelectMovie (Resolves (Response 200 (Inr []))) ''Batman'' searched))))
   = searched\<lparr>error := ''Failed to fetch''\<rparr>"
    by (simp add: ex_defs Back_eq SelectMovie_def selected_effect_def selectMovie_def
        fetchReviews_def submitReview_def deleteReview_def trim_def is_space_def ok_def)
  from Back_restores_search_view [of "Rejects ''x''" reviewing "[]" "Rejects ''x''" "''''" reviewing]
  have "Back (Rejects ''x'') reviewing = (reviewing\<lparr>selected := None\<rparr>, [])"
    by (rule conjunct1)
  with e show ?thesis by (rule conjI [rotated])
qed

end
